theory Spec2Isabelle
  imports Complex_Main "HOL-Library.Multiset"
begin

section \<open>Neighborhood Life: schedule generation and alarm-driven execution\<close>

text \<open>
  A shallow embedding of the package \<^verbatim>\<open>neighborhood_life\<close> (\<^verbatim>\<open>util.py\<close>,
  \<^verbatim>\<open>schedules.py\<close>, \<^verbatim>\<open>director.py\<close>, \<^verbatim>\<open>news.py\<close>, \<^verbatim>\<open>actions.py\<close>,
  \<^verbatim>\<open>bootstrap.py\<close>).

  Conventions of the embedding.
  \<^item> A Python exception is a value \<open>Inl e\<close> of a sum type; every raise of the modelled
    code is a branch of the model.
  \<^item> A Python \<^verbatim>\<open>dict\<close> is an association list in insertion order: assignment to an
    existing key keeps its position, assignment to a new key appends.
  \<^item> Weights are JSON numbers; they are modelled as exact reals, so the rounding of
    binary floating point is outside the model.
  \<^item> The outcomes of the calls to the \<^verbatim>\<open>random\<close> module are explicit arguments
    (raw draws), mapped into the requested range the way the library does.
  \<^item> The game services (sim manager, clock, weather, file system, alarm facility) are
    explicit environment and state values.
  \<^item> The news centre and the executor are modelled by the events they add to a trace.
  \<^item> \<^verbatim>\<open>log\<close> only prints and is left out.
\<close>

subsection \<open>Errors and dictionaries\<close>

datatype py_error = ValueError | IndexError | JSONDecodeError

text \<open>\<^verbatim>\<open>d.get(k, default)\<close>\<close>

definition dict_get :: "('k \<times> 'v) list \<Rightarrow> 'k \<Rightarrow> 'v \<Rightarrow> 'v" where
  "dict_get d k dflt = (case map_of d k of None \<Rightarrow> dflt | Some v \<Rightarrow> v)"

text \<open>\<^verbatim>\<open>d[k] = v\<close>\<close>

fun dict_set :: "('k \<times> 'v) list \<Rightarrow> 'k \<Rightarrow> 'v \<Rightarrow> ('k \<times> 'v) list" where
  "dict_set [] k v = [(k, v)]"
| "dict_set ((k', v') # d) k v =
     (if k' = k then (k, v) # d else (k', v') # dict_set d k v)"

definition dict_keys :: "('k \<times> 'v) list \<Rightarrow> 'k list" where
  "dict_keys d = map fst d"

definition dict_values :: "('k \<times> 'v) list \<Rightarrow> 'v list" where
  "dict_values d = map snd d"

subsection \<open>The \<^verbatim>\<open>random\<close> module\<close>

text \<open>
  \<^verbatim>\<open>random.randint(a, b)\<close> is \<^verbatim>\<open>a + randbelow(b - a + 1)\<close> and raises
  \<^verbatim>\<open>ValueError\<close> on an empty range; \<open>raw\<close> is the generator's raw output.
\<close>

definition randint :: "int \<Rightarrow> int \<Rightarrow> nat \<Rightarrow> py_error + int" where
  "randint a b raw =
     (if b < a then Inl ValueError else Inr (a + int (raw mod nat (b - a + 1))))"

text \<open>
  \<^verbatim>\<open>random.uniform(a, b)\<close> is \<^verbatim>\<open>a + (b - a) * random()\<close>; \<open>u\<close> is the outcome of
  \<^verbatim>\<open>random()\<close>, which the library draws from \<open>[0, 1)\<close>.
\<close>

definition uniform :: "real \<Rightarrow> real \<Rightarrow> real \<Rightarrow> real" where
  "uniform a b u = a + (b - a) * u"

text \<open>
  \<^verbatim>\<open>random.choice(seq)\<close> is \<^verbatim>\<open>seq[randbelow(len(seq))]\<close> and raises
  \<^verbatim>\<open>IndexError\<close> on an empty sequence.
\<close>

definition choice :: "'a list \<Rightarrow> nat \<Rightarrow> py_error + 'a" where
  "choice seq raw = (if seq = [] then Inl IndexError else Inr (seq ! (raw mod length seq)))"

text \<open>
  \<^verbatim>\<open>random.shuffle(x)\<close>: for \<open>i\<close> from \<open>len(x) - 1\<close> down to \<open>1\<close>, swap \<open>x[i]\<close> with
  \<open>x[j]\<close> where \<open>j = randbelow(i + 1)\<close>; \<open>raw i\<close> is the raw draw of step \<open>i\<close>.
\<close>

fun shuffle_from :: "nat \<Rightarrow> (nat \<Rightarrow> nat) \<Rightarrow> 'a list \<Rightarrow> 'a list" where
  "shuffle_from 0 raw xs = xs"
| "shuffle_from (Suc i) raw xs =
     (let j = raw (Suc i) mod (Suc (Suc i))
      in shuffle_from i raw (xs[Suc i := xs ! j, j := xs ! Suc i]))"

definition shuffle :: "(nat \<Rightarrow> nat) \<Rightarrow> 'a list \<Rightarrow> 'a list" where
  "shuffle raw xs = shuffle_from (length xs - 1) raw xs"

text \<open>
  The draws one iteration of the schedule loop consumes: one \<^verbatim>\<open>randint\<close> for the
  duration, then either one \<^verbatim>\<open>uniform\<close> or one \<^verbatim>\<open>choice\<close> inside the selector.
\<close>

record draw =
  dur_raw :: nat
  unit_draw :: real
  pick_raw :: nat

subsection \<open>\<^verbatim>\<open>util.weighted_choice\<close>\<close>

text \<open>
  \<^verbatim>\<open>
  def weighted_choice(weights):
      items = [(k, max(v, 0.0)) for k, v in weights.items() if v > 0.0]
      if not items:
          return random.choice(list(weights.keys()))
      total = sum(v for _, v in items)
      r = random.uniform(0, total)
      upto = 0.0
      for k, v in items:
          if upto + v >= r:
              return k
          upto += v
      return items[-1][0]
  \<close>
\<close>

definition positive_items :: "(string \<times> real) list \<Rightarrow> (string \<times> real) list" where
  "positive_items weights = map (\<lambda>(k, v). (k, max v 0)) (filter (\<lambda>(k, v). v > 0) weights)"

text \<open>
  The \<^verbatim>\<open>for\<close> loop, with \<open>up\<close> for the variable \<^verbatim>\<open>upto\<close>: \<open>None\<close> when the loop
  ends without returning.
\<close>

fun walk :: "(string \<times> real) list \<Rightarrow> real \<Rightarrow> real \<Rightarrow> string option" where
  "walk [] r up = None"
| "walk ((k, v) # items) r up = (if up + v \<ge> r then Some k else walk items r (up + v))"

definition weighted_choice :: "(string \<times> real) list \<Rightarrow> draw \<Rightarrow> py_error + string" where
  "weighted_choice weights d =
     (let items = positive_items weights in
      if items = [] then choice (dict_keys weights) (pick_raw d)
      else
        let total = sum_list (map snd items);
            r = uniform 0 total (unit_draw d)
        in case walk items r 0 of
             Some k \<Rightarrow> Inr k
           | None \<Rightarrow> Inr (fst (last items)))"




subsection \<open>\<^verbatim>\<open>util.time_str_to_minutes\<close>\<close>

text \<open>
  \<^verbatim>\<open>
  def time_str_to_minutes(hhmm):
      hh, mm = hhmm.split(":")
      return int(hh) * 60 + int(mm)
  \<close>
  \<^verbatim>\<open>int\<close> of a string is modelled on ASCII text: surrounding whitespace is stripped, one
  optional sign, then decimal digits with single underscores allowed between digits;
  anything else raises \<^verbatim>\<open>ValueError\<close>. Unpacking anything but two parts raises
  \<^verbatim>\<open>ValueError\<close> too.
\<close>

fun split_on :: "char \<Rightarrow> string \<Rightarrow> string list" where
  "split_on sep [] = [[]]"
| "split_on sep (c # cs) =
     (if c = sep then [] # split_on sep cs
      else (case split_on sep cs of
              [] \<Rightarrow> [[c]]
            | p # ps \<Rightarrow> (c # p) # ps))"

definition is_space :: "char \<Rightarrow> bool" where
  "is_space c \<longleftrightarrow>
     c \<in> set [CHR '' '', CHR 0x09, CHR 0x0A, CHR 0x0B, CHR 0x0C, CHR 0x0D,
              CHR 0x1C, CHR 0x1D, CHR 0x1E, CHR 0x1F]"

definition strip :: "string \<Rightarrow> string" where
  "strip s = rev (dropWhile is_space (rev (dropWhile is_space s)))"

definition digit_of :: "char \<Rightarrow> nat option" where
  "digit_of c =
     map_of [(CHR ''0'', 0), (CHR ''1'', 1), (CHR ''2'', 2), (CHR ''3'', 3), (CHR ''4'', 4),
             (CHR ''5'', 5), (CHR ''6'', 6), (CHR ''7'', 7), (CHR ''8'', 8), (CHR ''9'', 9)] c"

text \<open>
  \<open>digits_val s acc after_digit\<close>: the value of the digit string \<open>s\<close> continuing \<open>acc\<close>;
  \<open>after_digit\<close> says that the previous character was a digit, which is where an
  underscore or the end of the literal is allowed.
\<close>

fun digits_val :: "string \<Rightarrow> nat \<Rightarrow> bool \<Rightarrow> nat option" where
  "digits_val [] acc after_digit = (if after_digit then Some acc else None)"
| "digits_val (c # cs) acc after_digit =
     (if c = CHR ''_'' then (if after_digit then digits_val cs acc False else None)
      else (case digit_of c of
              None \<Rightarrow> None
            | Some n \<Rightarrow> digits_val cs (acc * 10 + n) True))"

definition py_int :: "string \<Rightarrow> py_error + int" where
  "py_int s =
     (let t = strip s;
          neg = (t \<noteq> [] \<and> hd t = CHR ''-'');
          body = (if t \<noteq> [] \<and> (hd t = CHR ''-'' \<or> hd t = CHR ''+'') then tl t else t)
      in case digits_val body 0 False of
           None \<Rightarrow> Inl ValueError
         | Some n \<Rightarrow> Inr (if neg then - int n else int n))"

definition time_str_to_minutes :: "string \<Rightarrow> py_error + int" where
  "time_str_to_minutes hhmm =
     (case split_on CHR '':'' hhmm of
        [hh, mm] \<Rightarrow>
          (case py_int hh of
             Inl e \<Rightarrow> Inl e
           | Inr h \<Rightarrow> (case py_int mm of Inl e \<Rightarrow> Inl e | Inr m \<Rightarrow> Inr (h * 60 + m)))
      | _ \<Rightarrow> Inl ValueError)"

subsection \<open>The game environment\<close>

text \<open>
  \<^verbatim>\<open>SimInfo\<close>, with the attributes the package reads; \<open>is_instanced\<close> is the result of
  \<^verbatim>\<open>is_instanced(allow_hidden_flags=False)\<close>, \<open>trait_names\<close> the names of the traits
  \<^verbatim>\<open>CommonTraitUtils.get_traits\<close> returns. The field \<open>info_sim_id\<close> is \<^verbatim>\<open>sim_info.sim_id\<close>.
\<close>

record sim_info =
  info_sim_id :: nat
  is_human :: bool
  is_baby :: bool
  is_instanced :: bool
  is_npc :: bool
  is_played :: bool
  trait_names :: "string list"

text \<open>
  \<open>all_sims\<close> is \<^verbatim>\<open>services.sim_info_manager().get_all()\<close>; \<open>weather_type\<close> is the name of
  the current weather type, \<open>None\<close> without a weather service or type; \<open>day_of_week\<close>,
  \<open>now_hour\<close> and \<open>now_minute\<close> read \<^verbatim>\<open>services.time_service().sim_now\<close>.
\<close>

record env =
  all_sims :: "sim_info list"
  weather_type :: "string option"
  day_of_week :: int
  now_hour :: int
  now_minute :: int

definition is_weekend :: "env \<Rightarrow> bool" where
  "is_weekend e \<longleftrightarrow> day_of_week e \<in> {6, 7}"

definition get_today_minutes :: "env \<Rightarrow> int" where
  "get_today_minutes e = now_hour e * 60 + now_minute e"

text \<open>\<^verbatim>\<open>CommonSimUtils.get_sim_info(sim_id)\<close>: the sim manager's entry, if any.\<close>

definition get_sim_info :: "env \<Rightarrow> nat \<Rightarrow> sim_info option" where
  "get_sim_info e sid = find (\<lambda>s. info_sim_id s = sid) (all_sims e)"

subsection \<open>\<^verbatim>\<open>util.select_participant_sims\<close>\<close>

text \<open>
  \<^verbatim>\<open>
  def select_participant_sims(count):
      all_candidates = []
      for sim_info in services.sim_info_manager().get_all():
          if sim_info.is_human and not sim_info.is_baby and not sim_info.is_instanced(...):
              if sim_info.is_npc or not sim_info.is_played:
                  all_candidates.append(sim_info)
      random.shuffle(all_candidates)
      picked = all_candidates[:max(1, count)]
      return picked
  \<close>
\<close>

definition eligible :: "sim_info \<Rightarrow> bool" where
  "eligible s \<longleftrightarrow> (is_human s \<and> \<not> is_baby s \<and> \<not> is_instanced s) \<and> (is_npc s \<or> \<not> is_played s)"

definition all_candidates :: "env \<Rightarrow> sim_info list" where
  "all_candidates e = filter eligible (all_sims e)"

definition select_participant_sims :: "env \<Rightarrow> int \<Rightarrow> (nat \<Rightarrow> nat) \<Rightarrow> sim_info list" where
  "select_participant_sims e count' raw =
     take (nat (max 1 count')) (shuffle raw (all_candidates e))"

subsection \<open>\<^verbatim>\<open>util.NLConfig\<close>\<close>

text \<open>
  An entry of \<^verbatim>\<open>time_blocks\<close>: a JSON object with the keys \<^verbatim>\<open>start\<close>,
  \<^verbatim>\<open>duration_min\<close> (a list of integers) and \<^verbatim>\<open>actions\<close>. The record type assumes
  that the three keys are present and of these JSON types.
\<close>

record block_template =
  tpl_start :: string
  tpl_duration_min :: "int list"
  tpl_actions :: "(string \<times> real) list"

record NLConfig =
  participant_count :: int
  time_blocks :: "block_template list"
  trait_bias :: "(string \<times> (string \<times> real) list) list"
  weather_bias :: "(string \<times> (string \<times> real) list) list"
  weekend_bias :: "(string \<times> real) list"
  news_enabled :: bool
  debug_logging :: bool

text \<open>The parsed JSON object of a config file: every key may be missing.\<close>

record json_config =
  json_participant_count :: "int option"
  json_time_blocks :: "block_template list option"
  json_trait_bias :: "(string \<times> (string \<times> real) list) list option"
  json_weather_bias :: "(string \<times> (string \<times> real) list) list option"
  json_weekend_bias :: "(string \<times> real) list option"
  json_news_enabled :: "bool option"
  json_debug_logging :: "bool option"

datatype config_file = Parsed json_config | Malformed

text \<open>
  The file system as \<^verbatim>\<open>load\<close> sees it: \<open>base_dir\<close> is \<^verbatim>\<open>os.path.dirname(__file__)\<close>
  (\<open>None\<close> when that raises), \<open>file_at p\<close> the file at path \<open>p\<close> if one exists;
  \<^verbatim>\<open>os.path.join\<close> and \<^verbatim>\<open>os.path.dirname\<close> are taken as given.
\<close>

record files =
  path_join :: "string list \<Rightarrow> string"
  path_dirname :: "string \<Rightarrow> string"
  base_dir :: "string option"
  file_at :: "string \<Rightarrow> config_file option"

datatype fs_event = Exists string | Open string

text \<open>
  The class attribute \<^verbatim>\<open>NLConfig._cached\<close>, and the log of the file system calls made
  so far.
\<close>

record loader =
  cached :: "NLConfig option"
  fs_log :: "fs_event list"

definition RESOURCES_DIR :: string where
  "RESOURCES_DIR = ''neighborhood_life_resources''"

definition CONFIG_FILENAME :: string where
  "CONFIG_FILENAME = ''config.json''"

definition candidates :: "files \<Rightarrow> string list" where
  "candidates fs =
     (case base_dir fs of
        None \<Rightarrow> []
      | Some b \<Rightarrow>
          if b \<noteq> [] then [path_join fs [path_dirname fs b, RESOURCES_DIR, CONFIG_FILENAME]]
          else [])
     @ [path_join fs [RESOURCES_DIR, CONFIG_FILENAME]]"

text \<open>
  The loop over the candidate paths: \<open>Inr None\<close> when no candidate exists, \<open>Inl\<close> when
  \<^verbatim>\<open>json.load\<close> raises on the first existing one.
\<close>

fun find_config ::
  "files \<Rightarrow> string list \<Rightarrow> fs_event list \<Rightarrow> (py_error + json_config option) \<times> fs_event list"
where
  "find_config fs [] lg = (Inr None, lg)"
| "find_config fs (p # ps) lg =
     (case file_at fs p of
        None \<Rightarrow> find_config fs ps (lg @ [Exists p])
      | Some Malformed \<Rightarrow> (Inl JSONDecodeError, lg @ [Exists p, Open p])
      | Some (Parsed j) \<Rightarrow> (Inr (Some j), lg @ [Exists p, Open p]))"

definition default_data :: json_config where
  "default_data =
     \<lparr>json_participant_count = Some 8, json_time_blocks = Some [], json_trait_bias = Some [],
      json_weather_bias = Some [], json_weekend_bias = Some [], json_news_enabled = Some True,
      json_debug_logging = Some True\<rparr>"

text \<open>\<^verbatim>\<open>data.get(key, default)\<close> on the parsed object.\<close>

definition json_get :: "'a option \<Rightarrow> 'a \<Rightarrow> 'a" where
  "json_get field dflt = (case field of None \<Rightarrow> dflt | Some v \<Rightarrow> v)"

definition make_config :: "json_config \<Rightarrow> NLConfig" where
  "make_config data =
     \<lparr>participant_count = json_get (json_participant_count data) 8,
      time_blocks = json_get (json_time_blocks data) [],
      trait_bias = json_get (json_trait_bias data) [],
      weather_bias = json_get (json_weather_bias data) [],
      weekend_bias = json_get (json_weekend_bias data) [],
      news_enabled = json_get (json_news_enabled data) True,
      debug_logging = json_get (json_debug_logging data) True\<rparr>"

text \<open>
  \<^verbatim>\<open>
  @classmethod
  def load(cls):
      if cls._cached is not None:
          return cls._cached
      ...
      data = None
      for p in candidates:
          if os.path.exists(p):
              with open(p, "r", encoding="utf-8") as f:
                  data = json.load(f)
              break
      if data is None:
          data = { ...defaults... }
      cfg = NLConfig(participant_count=int(data.get("participant_count", 8)), ...)
      cls._cached = cfg
      return cfg
  \<close>
\<close>

definition load :: "files \<Rightarrow> loader \<Rightarrow> (py_error + NLConfig) \<times> loader" where
  "load fs st =
     (case cached st of
        Some c \<Rightarrow> (Inr c, st)
      | None \<Rightarrow>
          (case find_config fs (candidates fs) (fs_log st) of
             (Inl e, lg) \<Rightarrow> (Inl e, st\<lparr>fs_log := lg\<rparr>)
           | (Inr found, lg) \<Rightarrow>
               let data = (case found of None \<Rightarrow> default_data | Some j \<Rightarrow> j);
                   c = make_config data
               in (Inr c, \<lparr>cached = Some c, fs_log = lg\<rparr>)))"

subsection \<open>\<^verbatim>\<open>schedules.ScheduleBuilder\<close>\<close>

record TimeBlock =
  start_min :: int
  duration_min :: int
  action :: string
  venue_tag :: "string option"

record DailySchedule =
  sim_id :: nat
  blocks :: "TimeBlock list"

text \<open>\<^verbatim>\<open>_derive_venue_tag\<close>: \<^verbatim>\<open>mapping.get(action, None)\<close>; two entries hold \<^verbatim>\<open>None\<close>.\<close>

definition venue_mapping :: "(string \<times> string option) list" where
  "venue_mapping =
     [(''CAFE_IDLE'', Some ''cafe''), (''LIB_IDLE'', Some ''library''),
      (''GYM_IDLE'', Some ''gym''), (''DINING_IDLE'', Some ''dining''),
      (''PARK_WALK'', Some ''park''), (''NEIGHBOR_VISIT'', Some ''residential''),
      (''HOME_IDLE'', Some ''residential''), (''WALK'', None), (''JOG'', None)]"

definition derive_venue_tag :: "string \<Rightarrow> string option" where
  "derive_venue_tag act = dict_get venue_mapping act None"

text \<open>
  The inner loop of the three bias methods:
  \<^verbatim>\<open>for act, delta in adds.items(): weights[act] = weights.get(act, 0.0) + delta\<close>
\<close>

fun apply_adds :: "(string \<times> real) list \<Rightarrow> (string \<times> real) list \<Rightarrow> (string \<times> real) list" where
  "apply_adds [] weights = weights"
| "apply_adds ((act, delta) # adds) weights =
     apply_adds adds (dict_set weights act (dict_get weights act 0 + delta))"

text \<open>
  \<^verbatim>\<open>
  def _apply_trait_bias(self, sim_info, weights):
      traits = CommonTraitUtils.get_traits(sim_info)
      names = set(... for t in traits)
      for trait_name, adds in self.cfg.trait_bias.items():
          if trait_name in names:
              for act, delta in adds.items(): ...
  \<close>
\<close>

fun trait_loop ::
  "string list \<Rightarrow> (string \<times> (string \<times> real) list) list \<Rightarrow> (string \<times> real) list
   \<Rightarrow> (string \<times> real) list"
where
  "trait_loop names [] weights = weights"
| "trait_loop names ((trait_name, adds) # rest) weights =
     trait_loop names rest (if trait_name \<in> set names then apply_adds adds weights else weights)"

definition apply_trait_bias ::
  "NLConfig \<Rightarrow> sim_info \<Rightarrow> (string \<times> real) list \<Rightarrow> (string \<times> real) list" where
  "apply_trait_bias cfg si weights = trait_loop (trait_names si) (trait_bias cfg) weights"

text \<open>The substring test \<^verbatim>\<open>pat in s\<close>.\<close>

fun str_in :: "string \<Rightarrow> string \<Rightarrow> bool" where
  "str_in pat [] \<longleftrightarrow> pat = []"
| "str_in pat (c # cs) \<longleftrightarrow> take (length pat) (c # cs) = pat \<or> str_in pat cs"

text \<open>
  \<^verbatim>\<open>
  def _apply_weather_bias(self, weather_type, weights):
      name = str(weather_type.name) if weather_type is not None else None
      if name is None:
          return
      adds = self.cfg.weather_bias.get(
          'Rain' if 'RAIN' in name else 'Snow' if 'SNOW' in name else None, None)
      if not adds:
          return
      for act, delta in adds.items(): ...
  \<close>
\<close>

definition apply_weather_bias ::
  "NLConfig \<Rightarrow> string option \<Rightarrow> (string \<times> real) list \<Rightarrow> (string \<times> real) list" where
  "apply_weather_bias cfg wtype weights =
     (case wtype of
        None \<Rightarrow> weights
      | Some name \<Rightarrow>
          (let key = (if str_in ''RAIN'' name then Some ''Rain''
                      else if str_in ''SNOW'' name then Some ''Snow'' else None);
               adds = (case key of None \<Rightarrow> None | Some k \<Rightarrow> map_of (weather_bias cfg) k)
           in case adds of
                None \<Rightarrow> weights
              | Some a \<Rightarrow> if a = [] then weights else apply_adds a weights))"

definition apply_weekend_bias :: "NLConfig \<Rightarrow> (string \<times> real) list \<Rightarrow> (string \<times> real) list" where
  "apply_weekend_bias cfg weights = apply_adds (weekend_bias cfg) weights"

text \<open>The weight table handed to the selector for one participant and one template.\<close>

definition biased_weights ::
  "NLConfig \<Rightarrow> env \<Rightarrow> sim_info \<Rightarrow> block_template \<Rightarrow> (string \<times> real) list" where
  "biased_weights cfg e si block =
     (let w0 = tpl_actions block;
          w1 = apply_trait_bias cfg si w0;
          w2 = apply_weather_bias cfg (weather_type e) w1
      in if is_weekend e then apply_weekend_bias cfg w2 else w2)"

text \<open>\<^verbatim>\<open>xs[i]\<close> for a non-negative index.\<close>

definition list_index :: "'a list \<Rightarrow> nat \<Rightarrow> py_error + 'a" where
  "list_index xs i = (if i < length xs then Inr (xs ! i) else Inl IndexError)"

text \<open>
  The body of the inner loop of \<^verbatim>\<open>build_for_sims\<close>:
  \<^verbatim>\<open>
  start = time_str_to_minutes(block['start'])
  dur = random.randint(block['duration_min'][0], block['duration_min'][1])
  action_weights = dict(block['actions'])
  self._apply_trait_bias(sim_info, action_weights)
  self._apply_weather_bias(wtype, action_weights)
  if is_weekend():
      self._apply_weekend_bias(action_weights)
  action = weighted_choice(action_weights)
  venue_tag = self._derive_venue_tag(action)
  blocks.append(TimeBlock(start_min=start, duration_min=dur, action=action, venue_tag=venue_tag))
  \<close>
\<close>

definition build_block ::
  "NLConfig \<Rightarrow> env \<Rightarrow> sim_info \<Rightarrow> block_template \<Rightarrow> draw \<Rightarrow> py_error + TimeBlock" where
  "build_block cfg e si block d =
     (case time_str_to_minutes (tpl_start block) of
        Inl err \<Rightarrow> Inl err
      | Inr start \<Rightarrow>
     (case list_index (tpl_duration_min block) 0 of
        Inl err \<Rightarrow> Inl err
      | Inr lo \<Rightarrow>
     (case list_index (tpl_duration_min block) 1 of
        Inl err \<Rightarrow> Inl err
      | Inr hi \<Rightarrow>
     (case randint lo hi (dur_raw d) of
        Inl err \<Rightarrow> Inl err
      | Inr dur \<Rightarrow>
     (case weighted_choice (biased_weights cfg e si block) d of
        Inl err \<Rightarrow> Inl err
      | Inr act \<Rightarrow>
          Inr \<lparr>start_min = start, duration_min = dur, action = act,
               venue_tag = derive_venue_tag act\<rparr>)))))"

text \<open>
  The inner loop over \<^verbatim>\<open>self.cfg.time_blocks\<close>; \<open>rng n\<close> holds the draws of the \<open>n\<close>-th
  iteration since the call began, \<open>acc\<close> is the list \<^verbatim>\<open>blocks\<close>.
\<close>

fun build_blocks ::
  "NLConfig \<Rightarrow> env \<Rightarrow> sim_info \<Rightarrow> block_template list \<Rightarrow> (nat \<Rightarrow> draw) \<Rightarrow> nat
   \<Rightarrow> TimeBlock list \<Rightarrow> py_error + TimeBlock list"
where
  "build_blocks cfg e si [] rng n acc = Inr acc"
| "build_blocks cfg e si (block # rest) rng n acc =
     (case build_block cfg e si block (rng n) of
        Inl err \<Rightarrow> Inl err
      | Inr b \<Rightarrow> build_blocks cfg e si rest rng (Suc n) (acc @ [b]))"

text \<open>The outer loop over \<^verbatim>\<open>sim_infos\<close>; \<open>scheds\<close> is the dictionary \<^verbatim>\<open>schedules\<close>.\<close>

fun build_loop ::
  "NLConfig \<Rightarrow> env \<Rightarrow> sim_info list \<Rightarrow> (nat \<Rightarrow> draw) \<Rightarrow> nat
   \<Rightarrow> (nat \<times> DailySchedule) list \<Rightarrow> py_error + (nat \<times> DailySchedule) list"
where
  "build_loop cfg e [] rng n scheds = Inr scheds"
| "build_loop cfg e (si # rest) rng n scheds =
     (let sid = info_sim_id si in
      case build_blocks cfg e si (time_blocks cfg) rng n [] of
        Inl err \<Rightarrow> Inl err
      | Inr bs \<Rightarrow>
          build_loop cfg e rest rng (n + length (time_blocks cfg))
            (dict_set scheds sid \<lparr>sim_id = sid, blocks = bs\<rparr>))"

definition build_for_sims ::
  "NLConfig \<Rightarrow> env \<Rightarrow> sim_info list \<Rightarrow> (nat \<Rightarrow> draw)
   \<Rightarrow> py_error + (nat \<times> DailySchedule) list" where
  "build_for_sims cfg e sim_infos rng = build_loop cfg e sim_infos rng 0 []"

subsection \<open>The host alarm facility\<close>

text \<open>
  The host timer facility is \<^verbatim>\<open>CommonAlarmUtils\<close> of an external library. An alarm is
  what \<^verbatim>\<open>set_alarm\<close> is given: the time span in minutes, the callback (the Start or the
  End handler of the director), the \<^verbatim>\<open>repeating\<close> flag and the data. In the host state
  \<open>live\<close> holds the alarms that are registered and not cancelled, and \<open>cancelled\<close>
  records the calls of \<^verbatim>\<open>cancel_alarm\<close>.
\<close>

datatype phase = Start | End

record alarm =
  delay_minutes :: int
  callback :: phase
  repeating :: bool
  payload :: "nat \<times> TimeBlock"

record host_alarms =
  next_handle :: nat
  live :: "(nat \<times> alarm) list"
  cancelled :: "nat list"

text \<open>
  Modelled from the spec: \<^verbatim>\<open>CommonAlarmUtils.set_alarm\<close>, which the specification
  describes as \<open>schedule(delay, payload) -> handle\<close>. The handle is a fresh number.
\<close>

definition set_alarm ::
  "host_alarms \<Rightarrow> int \<Rightarrow> phase \<Rightarrow> bool \<Rightarrow> nat \<times> TimeBlock \<Rightarrow> nat \<times> host_alarms" where
  "set_alarm h minutes cb rep dat =
     (next_handle h,
      h\<lparr>next_handle := Suc (next_handle h),
        live := live h @ [(next_handle h,
                 \<lparr>delay_minutes = minutes, callback = cb, repeating = rep, payload = dat\<rparr>)]\<rparr>)"

text \<open>
  Modelled from the spec: \<^verbatim>\<open>CommonAlarmUtils.cancel_alarm\<close>, the specification's
  \<open>cancel(handle)\<close>; cancelling a handle that is not live changes no alarm.
\<close>

definition cancel_alarm :: "host_alarms \<Rightarrow> nat \<Rightarrow> host_alarms" where
  "cancel_alarm h handle =
     h\<lparr>live := filter (\<lambda>entry. fst entry \<noteq> handle) (live h),
       cancelled := cancelled h @ [handle]\<rparr>"

subsection \<open>\<^verbatim>\<open>director.NeighborhoodDirector\<close>\<close>

text \<open>
  The fields \<^verbatim>\<open>self.cfg\<close>, \<^verbatim>\<open>self._schedules\<close> and \<^verbatim>\<open>self._alarms\<close>; the news
  centre and the executor hold the same \<open>cfg\<close> and no other state.
\<close>

record director =
  dir_cfg :: NLConfig
  schedules :: "(nat \<times> DailySchedule) list"
  alarms :: "nat list"

definition new_director :: "NLConfig \<Rightarrow> director" where
  "new_director cfg = \<lparr>dir_cfg = cfg, schedules = [], alarms = []\<rparr>"

text \<open>
  \<^verbatim>\<open>
  def _schedule_alarms(self):
      now_min = get_today_minutes()
      for ds in self._schedules.values():
          for block in ds.blocks:
              delta = max(0, block.start_min - now_min)
              handle = CommonAlarmUtils.set_alarm(create_time_span(minutes=delta),
                  self._on_block_start, repeating=False, data=(ds.sim_id, block))
              self._alarms.append(handle)
              end_handle = CommonAlarmUtils.set_alarm(
                  create_time_span(minutes=delta + block.duration_min),
                  self._on_block_end, repeating=False, data=(ds.sim_id, block))
              self._alarms.append(end_handle)
  \<close>
  The two loops thread the host state and the list \<^verbatim>\<open>self._alarms\<close>.
\<close>

fun block_alarms ::
  "int \<Rightarrow> nat \<Rightarrow> TimeBlock list \<Rightarrow> host_alarms \<times> nat list \<Rightarrow> host_alarms \<times> nat list" where
  "block_alarms now_min sid [] (h, al) = (h, al)"
| "block_alarms now_min sid (block # rest) (h, al) =
     (let delta = max 0 (start_min block - now_min);
          (handle, h1) = set_alarm h delta Start False (sid, block);
          al1 = al @ [handle];
          (end_handle, h2) = set_alarm h1 (delta + duration_min block) End False (sid, block);
          al2 = al1 @ [end_handle]
      in block_alarms now_min sid rest (h2, al2))"

fun schedule_loop ::
  "int \<Rightarrow> DailySchedule list \<Rightarrow> host_alarms \<times> nat list \<Rightarrow> host_alarms \<times> nat list" where
  "schedule_loop now_min [] st = st"
| "schedule_loop now_min (ds # rest) st =
     schedule_loop now_min rest (block_alarms now_min (sim_id ds) (blocks ds) st)"

definition schedule_alarms :: "env \<Rightarrow> host_alarms \<times> director \<Rightarrow> host_alarms \<times> director" where
  "schedule_alarms e st =
     (let (h, d) = st;
          now_min = get_today_minutes e;
          (h', al) = schedule_loop now_min (dict_values (schedules d)) (h, alarms d)
      in (h', d\<lparr>alarms := al\<rparr>))"

text \<open>The draws of one activation: those of the shuffle and those of the build.\<close>

record rng =
  shuffle_raw :: "nat \<Rightarrow> nat"
  block_draws :: "nat \<Rightarrow> draw"

text \<open>
  \<^verbatim>\<open>
  def start_for_today(self):
      sim_infos = select_participant_sims(self.cfg.participant_count)
      builder = ScheduleBuilder(self.cfg)
      self._schedules = builder.build_for_sims(sim_infos)
      self._schedule_alarms()
  \<close>
  An exception of the build leaves the director and the host as they were.
\<close>

definition start_for_today ::
  "env \<Rightarrow> rng \<Rightarrow> host_alarms \<times> director \<Rightarrow> py_error + host_alarms \<times> director" where
  "start_for_today e g st =
     (let (h, d) = st;
          sim_infos = select_participant_sims e (participant_count (dir_cfg d)) (shuffle_raw g)
      in case build_for_sims (dir_cfg d) e sim_infos (block_draws g) of
           Inl err \<Rightarrow> Inl err
         | Inr s \<Rightarrow> Inr (schedule_alarms e (h, d\<lparr>schedules := s\<rparr>)))"

text \<open>
  \<^verbatim>\<open>
  def stop_all(self):
      for alarm_handle in list(self._alarms):
          CommonAlarmUtils.cancel_alarm(alarm_handle)
      self._alarms.clear()
      self._schedules.clear()
  \<close>
\<close>

definition stop_all :: "host_alarms \<times> director \<Rightarrow> host_alarms \<times> director" where
  "stop_all st =
     (let (h, d) = st
      in (foldl cancel_alarm h (alarms d), d\<lparr>alarms := [], schedules := []\<rparr>))"

subsection \<open>The alarm callbacks and their collaborators\<close>

text \<open>
  What the callbacks do is a trace of events: a notification shown by the news centre,
  a call of the executor's \<^verbatim>\<open>execute\<close>, a call of its \<^verbatim>\<open>cleanup\<close>. The text of a
  notification and the movement the executor orders are not modelled.
\<close>

datatype event =
  Notification phase nat TimeBlock
| Execute nat TimeBlock
| Cleanup nat TimeBlock


definition post_end :: "NLConfig \<Rightarrow> sim_info \<Rightarrow> TimeBlock \<Rightarrow> event list \<Rightarrow> event list" where
  "post_end cfg si block tr =
     (if \<not> news_enabled cfg then tr else tr @ [Notification End (info_sim_id si) block])"


definition cleanup :: "sim_info \<Rightarrow> TimeBlock \<Rightarrow> event list \<Rightarrow> event list" where
  "cleanup si block tr = tr @ [Cleanup (info_sim_id si) block]"


definition on_block_end ::
  "env \<Rightarrow> director \<Rightarrow> nat \<times> TimeBlock \<Rightarrow> event list \<Rightarrow> event list" where
  "on_block_end e d dat tr =
     (let (sid, block) = dat in
      case get_sim_info e sid of
        None \<Rightarrow> tr
      | Some si \<Rightarrow> cleanup si block (post_end (dir_cfg d) si block tr))"

subsection \<open>\<^verbatim>\<open>bootstrap\<close>\<close>

text \<open>
  The process state the zone handlers work on: the config cache, the global
  \<^verbatim>\<open>_DIRECTOR_SINGLETON\<close> and the host's alarms.
\<close>

record process =
  config_loader :: loader
  director_singleton :: "director option"
  host :: host_alarms

definition ensure_singleton :: "'a option \<Rightarrow> 'a \<Rightarrow> 'a" where
  "ensure_singleton old new = (case old of Some x \<Rightarrow> x | None \<Rightarrow> new)"

text \<open>
  \<^verbatim>\<open>
  def _on_zone_late_load(event):
      global _DIRECTOR_SINGLETON
      cfg = NLConfig.load()
      director = NeighborhoodDirector(cfg)
      _DIRECTOR_SINGLETON = ensure_singleton(_DIRECTOR_SINGLETON, director)
      _DIRECTOR_SINGLETON.start_for_today()
  \<close>
  The result is the exception that escapes the handler, if any, and the state it leaves.
\<close>

definition on_zone_late_load ::
  "files \<Rightarrow> env \<Rightarrow> rng \<Rightarrow> process \<Rightarrow> py_error option \<times> process" where
  "on_zone_late_load fs e g p =
     (case load fs (config_loader p) of
        (Inl err, ld) \<Rightarrow> (Some err, p\<lparr>config_loader := ld\<rparr>)
      | (Inr cfg, ld) \<Rightarrow>
          (let d = ensure_singleton (director_singleton p) (new_director cfg);
               p1 = p\<lparr>config_loader := ld, director_singleton := Some d\<rparr>
           in case start_for_today e g (host p1, d) of
                Inl err \<Rightarrow> (Some err, p1)
              | Inr (h, d') \<Rightarrow> (None, p1\<lparr>host := h, director_singleton := Some d'\<rparr>)))"

text \<open>
  \<^verbatim>\<open>
  def _on_zone_unload(event):
      global _DIRECTOR_SINGLETON
      if _DIRECTOR_SINGLETON is not None:
          _DIRECTOR_SINGLETON.stop_all()
          _DIRECTOR_SINGLETON = None
  \<close>
\<close>

definition on_zone_unload :: "process \<Rightarrow> process" where
  "on_zone_unload p =
     (case director_singleton p of
        None \<Rightarrow> p
      | Some d \<Rightarrow> p\<lparr>host := fst (stop_all (host p, d)), director_singleton := None\<rparr>)"

subsection \<open>The vocabulary of the statements\<close>



text \<open>The built-in default the specification documents.\<close>

definition default_config :: NLConfig where
  "default_config =
     \<lparr>participant_count = 8, time_blocks = [], trait_bias = [], weather_bias = [],
      weekend_bias = [], news_enabled = True, debug_logging = True\<rparr>"

text \<open>
  \<open>block_ok\<close>: the conditions under which the loop body raises nothing: the start string
  parses, the duration list has two entries with \<open>min \<le> max\<close>, the biased weight table is
  not empty.
\<close>

definition block_ok :: "NLConfig \<Rightarrow> env \<Rightarrow> sim_info \<Rightarrow> block_template \<Rightarrow> bool" where
  "block_ok cfg e si block \<longleftrightarrow>
     \<not> isl (time_str_to_minutes (tpl_start block))
     \<and> 1 < length (tpl_duration_min block)
     \<and> tpl_duration_min block ! 0 \<le> tpl_duration_min block ! 1
     \<and> biased_weights cfg e si block \<noteq> []"

text \<open>\<open>built_from t b\<close>: the block \<open>b\<close> has the start and a duration of the template \<open>t\<close>.\<close>

definition built_from :: "block_template \<Rightarrow> TimeBlock \<Rightarrow> bool" where
  "built_from t b \<longleftrightarrow>
     time_str_to_minutes (tpl_start t) = Inr (start_min b)
     \<and> 1 < length (tpl_duration_min t)
     \<and> tpl_duration_min t ! 0 \<le> duration_min b
     \<and> duration_min b \<le> tpl_duration_min t ! 1
     \<and> venue_tag b = derive_venue_tag (action b)"



text \<open>An entry of the returned dictionary: the schedule of its key, one block per template.\<close>

definition schedule_ok :: "NLConfig \<Rightarrow> nat \<times> DailySchedule \<Rightarrow> bool" where
  "schedule_ok cfg entry \<longleftrightarrow>
     sim_id (snd entry) = fst entry \<and> list_all2 built_from (time_blocks cfg) (blocks (snd entry))"

text \<open>
  The alarms of an activation in the words of the specification: for every block of
  every schedule, in order, a Start alarm at \<open>startDelay\<close> and an End alarm at
  \<open>endDelay\<close>, both one-shot and carrying the participant id and the block.
\<close>

definition start_delay :: "int \<Rightarrow> TimeBlock \<Rightarrow> int" where
  "start_delay now_min block = max 0 (start_min block - now_min)"

definition end_delay :: "int \<Rightarrow> TimeBlock \<Rightarrow> int" where
  "end_delay now_min block = start_delay now_min block + duration_min block"

definition alarm_pair :: "int \<Rightarrow> nat \<Rightarrow> TimeBlock \<Rightarrow> alarm list" where
  "alarm_pair now_min sid block =
     [\<lparr>delay_minutes = start_delay now_min block, callback = Start, repeating = False,
       payload = (sid, block)\<rparr>,
      \<lparr>delay_minutes = end_delay now_min block, callback = End, repeating = False,
       payload = (sid, block)\<rparr>]"

definition expected_alarms :: "int \<Rightarrow> DailySchedule list \<Rightarrow> alarm list" where
  "expected_alarms now_min dss =
     concat (map (\<lambda>ds. concat (map (alarm_pair now_min (sim_id ds)) (blocks ds))) dss)"

text \<open>The host after registering a list of alarms, in order, under fresh handles.\<close>

definition register :: "host_alarms \<Rightarrow> alarm list \<Rightarrow> host_alarms" where
  "register h as =
     h\<lparr>next_handle := next_handle h + length as,
       live := live h @ zip [next_handle h..<next_handle h + length as] as\<rparr>"

subsection \<open>Example inputs\<close>

definition ex_draw :: draw where
  "ex_draw = \<lparr>dur_raw = 0, unit_draw = 1 / 2, pick_raw = 0\<rparr>"


definition ex_sim :: "nat \<Rightarrow> string list \<Rightarrow> sim_info" where
  "ex_sim sid traits =
     \<lparr>info_sim_id = sid, is_human = True, is_baby = False, is_instanced = False,
      is_npc = True, is_played = False, trait_names = traits\<rparr>"

definition ex_env :: env where
  "ex_env =
     \<lparr>all_sims = [ex_sim 1 [], (ex_sim 7 [])\<lparr>is_baby := True\<rparr>, ex_sim 2 [''ACTIVE'']],
      weather_type = None, day_of_week = 1, now_hour = 7, now_minute = 0\<rparr>"

fun join_slash :: "string list \<Rightarrow> string" where
  "join_slash [] = []"
| "join_slash [p] = p"
| "join_slash (p # ps) = p @ ''/'' @ join_slash ps"

definition ex_files :: files where
  "ex_files =
     \<lparr>path_join = join_slash, path_dirname = (\<lambda>p. ''Mods''),
      base_dir = Some ''Mods/neighborhood_life'', file_at = (\<lambda>p. None)\<rparr>"

definition ex_template :: block_template where
  "ex_template =
     \<lparr>tpl_start = ''08:00'', tpl_duration_min = [30, 30],
      tpl_actions = [(''WALK'', 1), (''HOME_IDLE'', 1)]\<rparr>"

definition ex_cfg :: NLConfig where
  "ex_cfg =
     \<lparr>participant_count = 1, time_blocks = [ex_template],
      trait_bias = [(''ACTIVE'', [(''JOG'', 5)])], weather_bias = [], weekend_bias = [],
      news_enabled = True, debug_logging = True\<rparr>"

text \<open>Every iteration draws \<open>ex_draw\<close>.\<close>

definition ex_draws :: "nat \<Rightarrow> draw" where
  "ex_draws n = ex_draw"

text \<open>A shuffle that leaves the list as it is, and one that swaps two candidates.\<close>

definition ex_rng :: rng where
  "ex_rng = \<lparr>shuffle_raw = (\<lambda>i. i), block_draws = ex_draws\<rparr>"

definition ex_rng_swap :: rng where
  "ex_rng_swap = \<lparr>shuffle_raw = (\<lambda>i. 0), block_draws = ex_draws\<rparr>"

definition ex_block :: TimeBlock where
  "ex_block = \<lparr>start_min = 480, duration_min = 30, action = ''WALK'', venue_tag = None\<rparr>"

definition ex_host0 :: host_alarms where
  "ex_host0 = \<lparr>next_handle = 0, live = [], cancelled = []\<rparr>"

definition ex_start_alarm :: alarm where
  "ex_start_alarm =
     \<lparr>delay_minutes = 60, callback = Start, repeating = False, payload = (1, ex_block)\<rparr>"

definition ex_end_alarm :: alarm where
  "ex_end_alarm =
     \<lparr>delay_minutes = 90, callback = End, repeating = False, payload = (1, ex_block)\<rparr>"

definition ex_host1 :: host_alarms where
  "ex_host1 = \<lparr>next_handle = 2, live = [(0, ex_start_alarm), (1, ex_end_alarm)], cancelled = []\<rparr>"

definition ex_director1 :: director where
  "ex_director1 =
     \<lparr>dir_cfg = ex_cfg, schedules = [(1, \<lparr>sim_id = 1, blocks = [ex_block]\<rparr>)], alarms = [0, 1]\<rparr>"

definition ex_cfg_no_actions :: NLConfig where
  "ex_cfg_no_actions =
     ex_cfg\<lparr>participant_count := 2,
            time_blocks := [ex_template\<lparr>tpl_actions := []\<rparr>]\<rparr>"



definition ex_jog_block :: TimeBlock where
  "ex_jog_block = \<lparr>start_min = 480, duration_min = 30, action = ''JOG'', venue_tag = None\<rparr>"

definition ex_cfg_negative :: NLConfig where
  "ex_cfg_negative = ex_cfg\<lparr>time_blocks := [ex_template\<lparr>tpl_duration_min := [-30, -30]\<rparr>]\<rparr>"

definition ex_host2 :: host_alarms where
  "ex_host2 =
     \<lparr>next_handle = 4,
      live = [(0, ex_start_alarm), (1, ex_end_alarm), (2, ex_start_alarm), (3, ex_end_alarm)],
      cancelled = []\<rparr>"

definition ex_director2 :: director where
  "ex_director2 = ex_director1\<lparr>alarms := [0, 1, 2, 3]\<rparr>"

definition ex_host3 :: host_alarms where
  "ex_host3 =
     \<lparr>next_handle = 4, live = [(2, ex_start_alarm), (3, ex_end_alarm)], cancelled = [0, 1]\<rparr>"

definition ex_director3 :: director where
  "ex_director3 = ex_director1\<lparr>alarms := [2, 3]\<rparr>"

definition ex_json :: json_config where
  "ex_json =
     \<lparr>json_participant_count = Some 1, json_time_blocks = Some [ex_template],
      json_trait_bias = Some [(''ACTIVE'', [(''JOG'', 5)])], json_weather_bias = None,
      json_weekend_bias = None, json_news_enabled = None, json_debug_logging = None\<rparr>"

definition ex_config_path :: string where
  "ex_config_path = ''Mods/neighborhood_life_resources/config.json''"

definition ex_files_cfg :: files where
  "ex_files_cfg =
     ex_files\<lparr>file_at := (\<lambda>p. if p = ex_config_path then Some (Parsed ex_json) else None)\<rparr>"

definition ex_process0 :: process where
  "ex_process0 =
     \<lparr>config_loader = \<lparr>cached = None, fs_log = []\<rparr>, director_singleton = None,
      host = ex_host0\<rparr>"

definition ex_process1 :: process where
  "ex_process1 =
     \<lparr>config_loader = \<lparr>cached = Some ex_cfg, fs_log = [Exists ex_config_path, Open ex_config_path]\<rparr>,
      director_singleton = Some ex_director1, host = ex_host1\<rparr>"

definition ex_process2 :: process where
  "ex_process2 = ex_process1\<lparr>director_singleton := Some ex_director2, host := ex_host2\<rparr>"

section \<open>Properties\<close>

subsection \<open>The selector\<close>



lemma walk_in_keys: "walk items r up = Some k \<Longrightarrow> k \<in> fst ` set items"
  by (induction items r up rule: walk.induct) (auto split: if_splits)












lemma weighted_choice_fallback_example:
  "weighted_choice [(''WALK'', 0), (''JOG'', -3)] (ex_draw\<lparr>pick_raw := 5\<rparr>) = Inr ''JOG''"
  by (simp add: weighted_choice_def positive_items_def choice_def dict_keys_def ex_draw_def
      numeral_2_eq_2 [symmetric])

subsection \<open>The shuffle\<close>

lemma mset_shuffle_from:
  "i < length xs \<Longrightarrow> mset (shuffle_from i raw xs) = mset xs"
proof (induction i arbitrary: xs)
  case 0
  then show ?case by simp
next
  case (Suc i)
  let ?j = "raw (Suc i) mod Suc (Suc i)"
  have "?j < Suc (Suc i)" by simp
  then have j: "?j < length xs" using Suc.prems by linarith
  have "mset (xs[Suc i := xs ! ?j, ?j := xs ! Suc i]) = mset xs"
    using Suc.prems j by (simp add: mset_swap)
  moreover have "i < length (xs[Suc i := xs ! ?j, ?j := xs ! Suc i])"
    using Suc.prems by simp
  ultimately show ?case using Suc.IH by (simp add: Let_def)
qed

lemma mset_shuffle: "mset (shuffle raw xs) = mset xs"
  by (cases xs) (simp_all add: shuffle_def mset_shuffle_from)

lemma length_shuffle: "length (shuffle raw xs) = length xs"
  using mset_shuffle [of raw xs] by (metis size_mset)

lemma set_shuffle: "set (shuffle raw xs) = set xs"
  using mset_shuffle [of raw xs] by (metis set_mset_mset)

lemma mset_take_subset: "mset (take n xs) \<subseteq># mset xs"
proof -
  have "mset xs = mset (take n xs) + mset (drop n xs)"
    by (metis append_take_drop_id mset_append)
  then show ?thesis by simp
qed

subsection \<open>Participant selection\<close>

text \<open>
  Claim C10. \<^verbatim>\<open>select_participant_sims\<close> returns the first \<open>max(1, count)\<close> sims of a
  permutation of the eligible candidates: at most \<open>max(1, count)\<close> of them, never more
  than there are candidates, each candidate at most once; a request with
  \<open>count \<le> 0\<close> still returns one participant when there is a candidate.
\<close>

theorem select_participant_sims_bounds:
  "length (select_participant_sims e count' raw) = min (nat (max 1 count')) (length (all_candidates e))
   \<and> length (select_participant_sims e count' raw) \<le> nat (max 1 count')
   \<and> length (select_participant_sims e count' raw) \<le> length (all_candidates e)
   \<and> mset (select_participant_sims e count' raw) \<subseteq># mset (all_candidates e)
   \<and> set (all_candidates e) = {s \<in> set (all_sims e). eligible s}
   \<and> (count' \<le> 0 \<and> all_candidates e \<noteq> [] \<longrightarrow> length (select_participant_sims e count' raw) = 1)"
proof -
  have len: "length (select_participant_sims e count' raw)
      = min (nat (max 1 count')) (length (all_candidates e))"
    by (simp add: select_participant_sims_def length_shuffle min.commute)
  have sub: "mset (select_participant_sims e count' raw) \<subseteq># mset (all_candidates e)"
    using mset_take_subset [of "nat (max 1 count')" "shuffle raw (all_candidates e)"]
    by (simp add: select_participant_sims_def mset_shuffle)
  have cand: "set (all_candidates e) = {s \<in> set (all_sims e). eligible s}"
    by (auto simp: all_candidates_def)
  have one: "count' \<le> 0 \<and> all_candidates e \<noteq> [] \<longrightarrow> length (select_participant_sims e count' raw) = 1"
    using len by (cases "all_candidates e") (auto simp: max_def)
  show ?thesis using len sub cand one by simp
qed

theorem select_participant_sims_bounds_witness:
  "(0::int) \<le> 0 \<and> all_candidates ex_env \<noteq> []
   \<and> map info_sim_id (select_participant_sims ex_env 0 (\<lambda>i. 0)) = [2]
   \<and> map info_sim_id (all_candidates ex_env) = [1, 2]"
  using select_participant_sims_bounds [of ex_env 0 "\<lambda>i. 0"]
  by (simp add: select_participant_sims_def all_candidates_def ex_env_def ex_sim_def eligible_def
      shuffle_def)

subsection \<open>Config loading\<close>

lemma find_config_missing:
  "\<forall>p \<in> set ps. file_at fs p = None \<Longrightarrow> find_config fs ps lg = (Inr None, lg @ map Exists ps)"
  by (induction ps arbitrary: lg) simp_all

lemma make_config_default: "make_config default_data = default_config"
  by (simp add: make_config_def default_data_def default_config_def json_get_def)

lemma load_cached: "cached st = Some c \<Longrightarrow> load fs st = (Inr c, st)"
  by (simp add: load_def)

lemma load_first_default:
  assumes "cached st = None" and "\<forall>p \<in> set (candidates fs). file_at fs p = None"
  shows "load fs st = (Inr default_config,
           \<lparr>cached = Some default_config, fs_log = fs_log st @ map Exists (candidates fs)\<rparr>)"
  using assms by (simp add: load_def find_config_missing make_config_default)

text \<open>
  Claim C9. Config loading is lazy and cached: a first \<^verbatim>\<open>load\<close> (nothing cached) that
  finds no config file at any candidate path returns the built-in default (participant
  count 8, no time blocks, notifications enabled) and caches it; a \<^verbatim>\<open>load\<close> with a
  cached config returns that config and leaves the state, with its log of file system
  calls, unchanged, whatever the file system then holds.
\<close>

theorem load_lazy_cached:
  assumes "cached st = None" and "\<forall>p \<in> set (candidates fs). file_at fs p = None"
  shows "fst (load fs st) = Inr default_config
       \<and> participant_count default_config = 8
       \<and> time_blocks default_config = []
       \<and> news_enabled default_config
       \<and> cached (snd (load fs st)) = Some default_config
       \<and> load fs' (snd (load fs st)) = (Inr default_config, snd (load fs st))
       \<and> (cached st' = Some c \<longrightarrow> load fs' st' = (Inr c, st'))"
  using load_first_default [OF assms] load_cached [of st' c fs']
  by (simp add: load_cached default_config_def)

theorem load_lazy_cached_witness:
  "cached \<lparr>cached = None, fs_log = []\<rparr> = None
   \<and> list_all (\<lambda>p. file_at ex_files p = None) (candidates ex_files)
   \<and> load ex_files \<lparr>cached = None, fs_log = []\<rparr>
       = (Inr default_config,
          \<lparr>cached = Some default_config,
           fs_log = [Exists ''Mods/neighborhood_life_resources/config.json'',
                     Exists ''neighborhood_life_resources/config.json'']\<rparr>)
   \<and> cached (snd (load ex_files \<lparr>cached = None, fs_log = []\<rparr>)) = Some default_config
   \<and> load (ex_files\<lparr>file_at := (\<lambda>p. Some Malformed)\<rparr>)
        (snd (load ex_files \<lparr>cached = None, fs_log = []\<rparr>))
       = (Inr default_config, snd (load ex_files \<lparr>cached = None, fs_log = []\<rparr>))"
  using load_lazy_cached [of "\<lparr>cached = None, fs_log = []\<rparr>" ex_files
      "ex_files\<lparr>file_at := (\<lambda>p. Some Malformed)\<rparr>"
      "snd (load ex_files \<lparr>cached = None, fs_log = []\<rparr>)" default_config]
  by (simp add: ex_files_def candidates_def RESOURCES_DIR_def CONFIG_FILENAME_def load_def
      make_config_def default_data_def default_config_def json_get_def Let_def)

subsection \<open>Example runs\<close>

lemma ex_time: "time_str_to_minutes ''08:00'' = Inr 480"
  by code_simp


lemma ex_first_activation:
  "start_for_today ex_env ex_rng (ex_host0, new_director ex_cfg) = Inr (ex_host1, ex_director1)"
  by code_simp

subsection \<open>The alarm callbacks\<close>

lemma get_sim_info_id: "get_sim_info e sid = Some si \<Longrightarrow> info_sim_id si = sid"
  by (auto simp: get_sim_info_def find_Some_iff)


lemma on_block_end_order:
  "on_block_end e d (sid, block) tr =
     tr @ (if get_sim_info e sid = None then []
           else (if news_enabled (dir_cfg d) then [Notification End sid block] else [])
                @ [Cleanup sid block])"
  by (auto simp: on_block_end_def post_end_def cleanup_def dest: get_sim_info_id
      split: option.splits)

subsection \<open>Deactivation\<close>

lemma foldl_cancel_alarm:
  "foldl cancel_alarm h hs =
     h\<lparr>live := filter (\<lambda>entry. fst entry \<notin> set hs) (live h), cancelled := cancelled h @ hs\<rparr>"
proof (induction hs arbitrary: h)
  case Nil
  then show ?case by simp
next
  case (Cons x hs)
  have "foldl cancel_alarm h (x # hs) = foldl cancel_alarm (cancel_alarm h x) hs"
    by simp
  also have "\<dots> = (cancel_alarm h x)
      \<lparr>live := filter (\<lambda>entry. fst entry \<notin> set hs) (live (cancel_alarm h x)),
       cancelled := cancelled (cancel_alarm h x) @ hs\<rparr>"
    by (rule Cons.IH)
  also have "\<dots> = h\<lparr>live := filter (\<lambda>entry. fst entry \<notin> set (x # hs)) (live h),
      cancelled := cancelled h @ x # hs\<rparr>"
    by (simp add: cancel_alarm_def conj_commute)
  finally show ?case .
qed

lemma stop_all_eq:
  "stop_all (h, d) =
     (h\<lparr>live := filter (\<lambda>entry. fst entry \<notin> set (alarms d)) (live h),
        cancelled := cancelled h @ alarms d\<rparr>,
      d\<lparr>alarms := [], schedules := []\<rparr>)"
  by (simp add: stop_all_def foldl_cancel_alarm)

text \<open>
  Claim C7. \<^verbatim>\<open>stop_all\<close> cancels every recorded handle, Start and End alike, clears
  the handle list and discards the schedules: no recorded handle is live afterwards, and
  no alarm at all when every live alarm was recorded. It is idempotent, and on a
  director with no handles and no schedules it changes nothing.
\<close>

theorem stop_all_drains:
  "alarms (snd (stop_all (h, d))) = []
   \<and> schedules (snd (stop_all (h, d))) = []
   \<and> dir_cfg (snd (stop_all (h, d))) = dir_cfg d
   \<and> cancelled (fst (stop_all (h, d))) = cancelled h @ alarms d
   \<and> live (fst (stop_all (h, d))) = filter (\<lambda>entry. fst entry \<notin> set (alarms d)) (live h)
   \<and> fst ` set (live (fst (stop_all (h, d)))) \<inter> set (alarms d) = {}
   \<and> (fst ` set (live h) \<subseteq> set (alarms d) \<longrightarrow> live (fst (stop_all (h, d))) = [])
   \<and> stop_all (stop_all (h, d)) = stop_all (h, d)
   \<and> (alarms d = [] \<and> schedules d = [] \<longrightarrow> stop_all (h, d) = (h, d))"
proof -
  have sub: "fst ` set (live h) \<subseteq> set (alarms d) \<longrightarrow>
      filter (\<lambda>entry. fst entry \<notin> set (alarms d)) (live h) = []"
    by (auto simp: filter_empty_conv)
  have idem: "stop_all (stop_all (h, d)) = stop_all (h, d)"
    by (simp add: stop_all_eq)
  show ?thesis
    using sub idem by (auto simp: stop_all_eq)
qed

theorem stop_all_drains_witness:
  "fst ` set (live ex_host1) \<subseteq> set (alarms ex_director1)
   \<and> live (fst (stop_all (ex_host1, ex_director1))) = []
   \<and> cancelled (fst (stop_all (ex_host1, ex_director1))) = [0, 1]
   \<and> alarms (new_director ex_cfg) = [] \<and> schedules (new_director ex_cfg) = []
   \<and> stop_all (ex_host0, new_director ex_cfg) = (ex_host0, new_director ex_cfg)"
proof -
  have active: "fst ` set (live ex_host1) \<subseteq> set (alarms ex_director1)"
    by (simp add: ex_host1_def ex_director1_def)
  have inactive: "alarms (new_director ex_cfg) = [] \<and> schedules (new_director ex_cfg) = []"
    by (simp add: new_director_def)
  have "live (fst (stop_all (ex_host1, ex_director1))) = []"
    using stop_all_drains [of ex_host1 ex_director1] active by blast
  moreover have "cancelled (fst (stop_all (ex_host1, ex_director1))) = [0, 1]"
    using stop_all_drains [of ex_host1 ex_director1] by (simp add: ex_host1_def ex_director1_def)
  moreover have "stop_all (ex_host0, new_director ex_cfg) = (ex_host0, new_director ex_cfg)"
    using stop_all_drains [of ex_host0 "new_director ex_cfg"] inactive by blast
  ultimately show ?thesis using active inactive by simp
qed

subsection \<open>Building schedules\<close>

lemma randint_range: "randint lo hi raw = Inr x \<Longrightarrow> lo \<le> x \<and> x \<le> hi"
proof -
  assume a: "randint lo hi raw = Inr x"
  then have le: "lo \<le> hi" by (auto simp: randint_def split: if_splits)
  then have "raw mod nat (hi - lo + 1) < nat (hi - lo + 1)" by simp
  then have "int (raw mod nat (hi - lo + 1)) \<le> hi - lo" using le by linarith
  then show ?thesis using a le by (auto simp: randint_def)
qed



lemma weighted_choice_empty: "weighted_choice [] d = Inl IndexError"
  by (simp add: weighted_choice_def positive_items_def choice_def dict_keys_def)

lemma weighted_choice_Inr_nonempty: "weighted_choice weights d = Inr k \<Longrightarrow> weights \<noteq> []"
  using weighted_choice_empty by auto

lemma build_block_Inr_ok:
  "build_block cfg e si t d = Inr b \<Longrightarrow> block_ok cfg e si t"
  by (auto simp: build_block_def block_ok_def list_index_def randint_def
      dest: weighted_choice_Inr_nonempty split: sum.splits if_splits)

lemma build_block_built_from:
  "build_block cfg e si t d = Inr b \<Longrightarrow> built_from t b"
  by (auto simp: build_block_def built_from_def list_index_def dest!: randint_range
      split: sum.splits if_splits)


lemma build_block_fails: "\<not> block_ok cfg e si t \<Longrightarrow> isl (build_block cfg e si t d)"
  using build_block_Inr_ok [of cfg e si t d] by (cases "build_block cfg e si t d") auto

lemma build_blocks_Inr:
  "build_blocks cfg e si ts rng n acc = Inr bs \<Longrightarrow>
   \<exists>new. bs = acc @ new \<and> list_all2 built_from ts new \<and> list_all (block_ok cfg e si) ts"
proof (induction ts arbitrary: n acc)
  case Nil
  then show ?case by simp
next
  case (Cons t ts)
  then obtain b where b: "build_block cfg e si t (rng n) = Inr b"
    and rest: "build_blocks cfg e si ts rng (Suc n) (acc @ [b]) = Inr bs"
    by (auto split: sum.splits)
  from Cons.IH [OF rest] obtain new where
    "bs = (acc @ [b]) @ new" "list_all2 built_from ts new" "list_all (block_ok cfg e si) ts"
    by blast
  then have "bs = acc @ (b # new) \<and> list_all2 built_from (t # ts) (b # new)
      \<and> list_all (block_ok cfg e si) (t # ts)"
    using build_block_built_from [OF b] build_block_Inr_ok [OF b] by simp
  then show ?case by blast
qed


lemma set_dict_set: "set (dict_set d k v) \<subseteq> insert (k, v) (set d)"
  by (induction d) (auto split: if_splits)

lemma keys_dict_set: "fst ` set (dict_set d k v) = insert k (fst ` set d)"
proof (induction d)
  case Nil
  then show ?case by simp
next
  case (Cons a d)
  obtain k' v' where a: "a = (k', v')" by (cases a)
  show ?case
  proof (cases "k' = k")
    case True
    then show ?thesis by (simp add: a)
  next
    case False
    then show ?thesis using Cons.IH by (simp add: a insert_commute)
  qed
qed

lemma distinct_dict_set: "distinct (map fst d) \<Longrightarrow> distinct (map fst (dict_set d k v))"
proof (induction d)
  case Nil
  then show ?case by simp
next
  case (Cons a d)
  then show ?case using keys_dict_set [of d k v] by (cases a) auto
qed

lemma build_loop_Inr:
  "build_loop cfg e sis rng n scheds = Inr out \<Longrightarrow>
   list_all (schedule_ok cfg) scheds \<Longrightarrow> distinct (map fst scheds) \<Longrightarrow>
   list_all (schedule_ok cfg) out \<and> distinct (map fst out)
   \<and> fst ` set out = fst ` set scheds \<union> info_sim_id ` set sis
   \<and> list_all (\<lambda>si. list_all (block_ok cfg e si) (time_blocks cfg)) sis"
proof (induction sis arbitrary: n scheds)
  case Nil
  then show ?case by simp
next
  case (Cons si sis)
  let ?sid = "info_sim_id si"
  from Cons.prems(1) obtain bs where
    bs: "build_blocks cfg e si (time_blocks cfg) rng n [] = Inr bs"
    and rest: "build_loop cfg e sis rng (n + length (time_blocks cfg))
        (dict_set scheds ?sid \<lparr>sim_id = ?sid, blocks = bs\<rparr>) = Inr out"
    by (auto simp: Let_def split: sum.splits)
  from build_blocks_Inr [OF bs] have built: "list_all2 built_from (time_blocks cfg) bs"
    and ok: "list_all (block_ok cfg e si) (time_blocks cfg)" by auto
  have inv: "list_all (schedule_ok cfg) (dict_set scheds ?sid \<lparr>sim_id = ?sid, blocks = bs\<rparr>)"
    using Cons.prems(2) built set_dict_set [of scheds ?sid "\<lparr>sim_id = ?sid, blocks = bs\<rparr>"]
    by (auto simp: list_all_iff schedule_ok_def)
  have dist: "distinct (map fst (dict_set scheds ?sid \<lparr>sim_id = ?sid, blocks = bs\<rparr>))"
    using Cons.prems(3) by (rule distinct_dict_set)
  from Cons.IH [OF rest inv dist] show ?case
    using ok by (auto simp: keys_dict_set)
qed


lemma build_for_sims_Inr:
  assumes "build_for_sims cfg e sims rng = Inr scheds"
  shows "list_all (schedule_ok cfg) scheds" and "distinct (dict_keys scheds)"
    and "set (dict_keys scheds) = info_sim_id ` set sims"
    and "list_all (\<lambda>si. list_all (block_ok cfg e si) (time_blocks cfg)) sims"
  using build_loop_Inr [of cfg e sims rng 0 "[]" scheds] assms
  by (simp_all add: build_for_sims_def dict_keys_def)

lemma build_for_sims_fails:
  assumes "si \<in> set sims" and "t \<in> set (time_blocks cfg)" and "\<not> block_ok cfg e si t"
  shows "isl (build_for_sims cfg e sims rng)"
proof (cases "build_for_sims cfg e sims rng")
  case (Inl err)
  then show ?thesis by simp
next
  case (Inr scheds)
  from build_for_sims_Inr(4) [OF Inr] assms show ?thesis
    by (auto simp: list_all_iff)
qed

subsection \<open>An empty weight table\<close>

text \<open>
  Claim C2, as stated, fails: the selector has no check of its own, an empty table
  raises \<^verbatim>\<open>IndexError\<close> in \<^verbatim>\<open>random.choice\<close>, and \<^verbatim>\<open>build_for_sims\<close> catches nothing.
  With a template without actions and a trait bias that gives sim 2 an action, the build
  for sim 2 alone succeeds, the build for sims 2 and 1 raises and returns no schedule,
  and so does the activation.
\<close>

theorem empty_weights_escape_counterexample:
  "weighted_choice [] ex_draw = Inl IndexError
   \<and> build_for_sims ex_cfg_no_actions ex_env [ex_sim 2 [''ACTIVE'']] ex_draws
       = Inr [(2, \<lparr>sim_id = 2, blocks = [ex_jog_block]\<rparr>)]
   \<and> build_for_sims ex_cfg_no_actions ex_env [ex_sim 2 [''ACTIVE''], ex_sim 1 []] ex_draws
       = Inl IndexError
   \<and> start_for_today ex_env ex_rng_swap
        (ex_host0, new_director ex_cfg_no_actions) = Inl IndexError"
  by code_simp

text \<open>
  Claim C2, amended. On an empty weight table the selector raises \<^verbatim>\<open>IndexError\<close>. The
  failure is not contained: when the biased table of any requested participant and any
  template is empty, \<^verbatim>\<open>build_for_sims\<close> raises and returns no schedule for any
  participant, and \<^verbatim>\<open>start_for_today\<close> raises with it.
\<close>

theorem empty_weights_abort_batch:
  "weighted_choice [] d = Inl IndexError
   \<and> (si \<in> set sims \<and> t \<in> set (time_blocks cfg) \<and> biased_weights cfg e si t = []
        \<longrightarrow> isl (build_for_sims cfg e sims rng))
   \<and> (si \<in> set (select_participant_sims e (participant_count (dir_cfg dr)) (shuffle_raw g))
        \<and> t \<in> set (time_blocks (dir_cfg dr)) \<and> biased_weights (dir_cfg dr) e si t = []
        \<longrightarrow> isl (start_for_today e g (h, dr)))"
proof -
  have a: "isl (build_for_sims c e ss r)"
    if "si \<in> set ss" "t \<in> set (time_blocks c)" "biased_weights c e si t = []" for c ss r
    using that build_for_sims_fails [of si ss t c e r] by (simp add: block_ok_def)
  have b: "isl (start_for_today e g (h, dr))"
    if "isl (build_for_sims (dir_cfg dr) e
          (select_participant_sims e (participant_count (dir_cfg dr)) (shuffle_raw g))
          (block_draws g))"
    using that by (auto simp: start_for_today_def Let_def split: sum.splits)
  show ?thesis using a b weighted_choice_empty by blast
qed

theorem empty_weights_abort_batch_witness:
  "ex_sim 1 [] \<in> set [ex_sim 2 [''ACTIVE''], ex_sim 1 []]
   \<and> ex_template\<lparr>tpl_actions := []\<rparr> \<in> set (time_blocks ex_cfg_no_actions)
   \<and> biased_weights ex_cfg_no_actions ex_env (ex_sim 1 []) (ex_template\<lparr>tpl_actions := []\<rparr>) = []
   \<and> isl (build_for_sims ex_cfg_no_actions ex_env [ex_sim 2 [''ACTIVE''], ex_sim 1 []]
        ex_draws)
   \<and> ex_sim 1 [] \<in> set (select_participant_sims ex_env
        (participant_count (dir_cfg (new_director ex_cfg_no_actions)))
        (shuffle_raw ex_rng_swap))
   \<and> isl (start_for_today ex_env ex_rng_swap
        (ex_host0, new_director ex_cfg_no_actions))"
proof -
  have hyp1: "ex_sim 1 [] \<in> set [ex_sim 2 [''ACTIVE''], ex_sim 1 []]
     \<and> ex_template\<lparr>tpl_actions := []\<rparr> \<in> set (time_blocks ex_cfg_no_actions)
     \<and> biased_weights ex_cfg_no_actions ex_env (ex_sim 1 []) (ex_template\<lparr>tpl_actions := []\<rparr>) = []"
    by code_simp
  have hyp2: "ex_sim 1 [] \<in> set (select_participant_sims ex_env
        (participant_count (dir_cfg (new_director ex_cfg_no_actions)))
        (shuffle_raw ex_rng_swap))
     \<and> ex_template\<lparr>tpl_actions := []\<rparr> \<in> set (time_blocks (dir_cfg (new_director ex_cfg_no_actions)))
     \<and> biased_weights (dir_cfg (new_director ex_cfg_no_actions)) ex_env (ex_sim 1 [])
          (ex_template\<lparr>tpl_actions := []\<rparr>) = []"
    by code_simp
  note inst = empty_weights_abort_batch [where si = "ex_sim 1 []"
      and t = "ex_template\<lparr>tpl_actions := []\<rparr>" and e = ex_env
      and cfg = ex_cfg_no_actions and sims = "[ex_sim 2 [''ACTIVE''], ex_sim 1 []]"
      and rng = ex_draws and dr = "new_director ex_cfg_no_actions"
      and g = ex_rng_swap and h = ex_host0 and d = ex_draw]
  show ?thesis using inst hyp1 hyp2 by blast
qed

subsection \<open>The shape of the built schedules\<close>




subsection \<open>The ranges of a built block\<close>





subsection \<open>Registering the alarms\<close>

lemma register_Nil: "register h [] = h"
  by (simp add: register_def)

lemma register_append: "register (register h xs) ys = register h (xs @ ys)"
proof -
  have "[next_handle h..<next_handle h + (length xs + length ys)]
      = [next_handle h..<next_handle h + length xs]
        @ [next_handle h + length xs..<next_handle h + length xs + length ys]"
    using upt_add_eq_append [of "next_handle h" "next_handle h + length xs" "length ys"]
    by (simp add: add.assoc)
  then show ?thesis by (simp add: register_def add.assoc)
qed

lemma upt_split: "[n..<n + (a + b)] = [n..<n + a] @ [n + a..<n + a + b]" for n a b :: nat
  using upt_add_eq_append [of n "n + a" b] by (simp add: add.assoc)

lemma set_alarm_pair:
  "set_alarm h (start_delay now_min block) Start False (sid, block) = (hd1, h1) \<Longrightarrow>
   set_alarm h1 (end_delay now_min block) End False (sid, block) = (hd2, h2) \<Longrightarrow>
   h2 = register h (alarm_pair now_min sid block)
   \<and> [hd1, hd2] = [next_handle h..<next_handle h + length (alarm_pair now_min sid block)]"
  by (auto simp: set_alarm_def register_def alarm_pair_def upt_rec)

lemma block_alarms_eq:
  "block_alarms now_min sid bs (h, al) =
     (register h (concat (map (alarm_pair now_min sid) bs)),
      al @ [next_handle h..<next_handle h + length (concat (map (alarm_pair now_min sid) bs))])"
proof (induction bs arbitrary: h al)
  case Nil
  then show ?case by (simp add: register_Nil)
next
  case (Cons b bs)
  define pair where "pair = alarm_pair now_min sid b"
  define others where "others = concat (map (alarm_pair now_min sid) bs)"
  obtain hd1 h1 where s1: "set_alarm h (start_delay now_min b) Start False (sid, b) = (hd1, h1)"
    by (cases "set_alarm h (start_delay now_min b) Start False (sid, b)")
  obtain hd2 h2 where s2: "set_alarm h1 (end_delay now_min b) End False (sid, b) = (hd2, h2)"
    by (cases "set_alarm h1 (end_delay now_min b) End False (sid, b)")
  from set_alarm_pair [OF s1 s2] have h2: "h2 = register h pair"
    and hds: "[hd1, hd2] = [next_handle h..<next_handle h + length pair]"
    by (simp_all add: pair_def)
  have nh: "next_handle h2 = next_handle h + length pair"
    by (simp add: h2 register_def)
  have "block_alarms now_min sid (b # bs) (h, al)
      = block_alarms now_min sid bs (h2, (al @ [hd1]) @ [hd2])"
    using s1 s2 by (simp add: start_delay_def end_delay_def Let_def)
  also have "\<dots> = (register h2 others,
      ((al @ [hd1]) @ [hd2]) @ [next_handle h2..<next_handle h2 + length others])"
    unfolding others_def by (rule Cons.IH)
  also have "((al @ [hd1]) @ [hd2]) = al @ [next_handle h..<next_handle h + length pair]"
    using hds by simp
  also have "register h2 others = register h (pair @ others)"
    by (simp add: h2 register_append)
  also have "(al @ [next_handle h..<next_handle h + length pair])
        @ [next_handle h2..<next_handle h2 + length others]
      = al @ [next_handle h..<next_handle h + length (pair @ others)]"
    by (simp add: nh upt_split)
  also have "pair @ others = concat (map (alarm_pair now_min sid) (b # bs))"
    by (simp add: pair_def others_def)
  finally show ?case .
qed

lemma length_block_pairs: "length (concat (map (alarm_pair now_min sid) bs)) = 2 * length bs"
  by (induction bs) (simp_all add: alarm_pair_def)

lemma length_expected_alarms:
  "length (expected_alarms now_min dss) = 2 * sum_list (map (\<lambda>ds. length (blocks ds)) dss)"
  by (induction dss) (simp_all add: expected_alarms_def length_block_pairs)

lemma schedule_loop_eq:
  "schedule_loop now_min dss (h, al) =
     (register h (expected_alarms now_min dss),
      al @ [next_handle h..<next_handle h + length (expected_alarms now_min dss)])"
proof (induction dss arbitrary: h al)
  case Nil
  then show ?case by (simp add: expected_alarms_def register_Nil)
next
  case (Cons ds dss)
  define first where "first = concat (map (alarm_pair now_min (sim_id ds)) (blocks ds))"
  define others where "others = expected_alarms now_min dss"
  have nh: "next_handle (register h first) = next_handle h + length first"
    by (simp add: register_def)
  have "schedule_loop now_min (ds # dss) (h, al)
      = schedule_loop now_min dss
          (register h first, al @ [next_handle h..<next_handle h + length first])"
    by (simp add: block_alarms_eq first_def)
  also have "\<dots> = (register (register h first) others,
      (al @ [next_handle h..<next_handle h + length first])
        @ [next_handle (register h first)..<next_handle (register h first) + length others])"
    unfolding others_def by (rule Cons.IH)
  also have "register (register h first) others = register h (first @ others)"
    by (rule register_append)
  also have "(al @ [next_handle h..<next_handle h + length first])
        @ [next_handle (register h first)..<next_handle (register h first) + length others]
      = al @ [next_handle h..<next_handle h + length (first @ others)]"
    by (simp add: nh upt_split)
  also have "first @ others = expected_alarms now_min (ds # dss)"
    by (simp add: first_def others_def expected_alarms_def)
  finally show ?case .
qed

lemma schedule_alarms_eq:
  "schedule_alarms e (h, d) =
     (register h (expected_alarms (get_today_minutes e) (dict_values (schedules d))),
      d\<lparr>alarms := alarms d @ [next_handle h..<next_handle h
            + length (expected_alarms (get_today_minutes e) (dict_values (schedules d)))]\<rparr>)"
  by (simp add: schedule_alarms_def schedule_loop_eq Let_def)

lemma start_for_today_eq:
  "start_for_today e g (h, d) =
     map_sum id
       (\<lambda>s. (register h (expected_alarms (get_today_minutes e) (dict_values s)),
             d\<lparr>schedules := s,
               alarms := alarms d @ [next_handle h..<next_handle h
                 + length (expected_alarms (get_today_minutes e) (dict_values s))]\<rparr>))
       (build_for_sims (dir_cfg d) e
          (select_participant_sims e (participant_count (dir_cfg d)) (shuffle_raw g))
          (block_draws g))"
  by (simp add: start_for_today_def schedule_alarms_eq Let_def split: sum.splits)

text \<open>
  Claim C6, as stated, fails in its last part: nothing keeps a duration from being
  negative. With the duration range \<open>[-30, -30]\<close> and the clock at 07:00 the Start alarm
  of the 08:00 block is registered at delay 60 and its End alarm at delay 30.
\<close>

theorem end_before_start_counterexample:
  "start_for_today ex_env ex_rng (ex_host0, new_director ex_cfg_negative)
     = Inr (\<lparr>next_handle = 2,
             live = [(0, \<lparr>delay_minutes = 60, callback = Start, repeating = False,
                          payload = (1, ex_block\<lparr>duration_min := - 30\<rparr>)\<rparr>),
                     (1, \<lparr>delay_minutes = 30, callback = End, repeating = False,
                          payload = (1, ex_block\<lparr>duration_min := - 30\<rparr>)\<rparr>)],
             cancelled = []\<rparr>,
            \<lparr>dir_cfg = ex_cfg_negative,
             schedules = [(1, \<lparr>sim_id = 1, blocks = [ex_block\<lparr>duration_min := - 30\<rparr>]\<rparr>)],
             alarms = [0, 1]\<rparr>)"
  by code_simp

text \<open>
  Claim C6, amended. An activation that builds its schedules runs
  \<^verbatim>\<open>_schedule_alarms\<close> on them, which registers, for every block of every
  schedule and in order, exactly two one-shot alarms carrying the participant id and
  the block: a Start alarm at delay \<open>max(0, start_min - now_min)\<close> and an End alarm at
  that delay plus the block's duration; their handles are appended to the handle list.
  The Start delay is at most the End delay exactly when the block's duration is not
  negative.
\<close>

theorem schedule_alarms_registers:
  "start_for_today e g (h, d) =
     map_sum id (\<lambda>s. schedule_alarms e (h, d\<lparr>schedules := s\<rparr>))
       (build_for_sims (dir_cfg d) e
          (select_participant_sims e (participant_count (dir_cfg d)) (shuffle_raw g))
          (block_draws g))
   \<and> schedule_alarms e (h, d) =
     (register h (expected_alarms (get_today_minutes e) (dict_values (schedules d))),
      d\<lparr>alarms := alarms d @ [next_handle h..<next_handle h
            + length (expected_alarms (get_today_minutes e) (dict_values (schedules d)))]\<rparr>)
   \<and> length (expected_alarms now_min dss) = 2 * sum_list (map (\<lambda>ds. length (blocks ds)) dss)
   \<and> alarm_pair now_min sid block =
       [\<lparr>delay_minutes = max 0 (start_min block - now_min), callback = Start,
         repeating = False, payload = (sid, block)\<rparr>,
        \<lparr>delay_minutes = max 0 (start_min block - now_min) + duration_min block, callback = End,
         repeating = False, payload = (sid, block)\<rparr>]
   \<and> (start_delay now_min block \<le> end_delay now_min block \<longleftrightarrow> 0 \<le> duration_min block)"
proof -
  have "start_for_today e g (h, d) =
     map_sum id (\<lambda>s. schedule_alarms e (h, d\<lparr>schedules := s\<rparr>))
       (build_for_sims (dir_cfg d) e
          (select_participant_sims e (participant_count (dir_cfg d)) (shuffle_raw g))
          (block_draws g))"
    by (simp add: start_for_today_def Let_def split: sum.splits)
  then show ?thesis
    by (simp add: schedule_alarms_eq length_expected_alarms alarm_pair_def start_delay_def
        end_delay_def)
qed

lemma schedule_alarms_example:
  "schedule_alarms ex_env (ex_host0, ex_director1\<lparr>alarms := []\<rparr>) = (ex_host1, ex_director1)"
  by code_simp

subsection \<open>Activation on an active director\<close>

lemma start_for_today_Inr:
  assumes "start_for_today e g (h, d) = Inr (h', d')"
  shows "\<exists>s as. h' = register h as
           \<and> d' = d\<lparr>schedules := s, alarms := alarms d @ [next_handle h..<next_handle h']\<rparr>"
proof -
  from assms obtain s where
    "(h', d') = (register h (expected_alarms (get_today_minutes e) (dict_values s)),
             d\<lparr>schedules := s,
               alarms := alarms d @ [next_handle h..<next_handle h
                 + length (expected_alarms (get_today_minutes e) (dict_values s))]\<rparr>)"
    unfolding start_for_today_eq
    by (cases "build_for_sims (dir_cfg d) e
          (select_participant_sims e (participant_count (dir_cfg d)) (shuffle_raw g))
          (block_draws g)") auto
  then show ?thesis by (auto simp: register_def)
qed

lemma register_handles:
  "fst ` set (live (register h as)) \<subseteq> fst ` set (live h) \<union> {next_handle h..<next_handle (register h as)}"
  by (auto simp: register_def dest!: set_zip_leftD)

text \<open>
  Claim C1, as stated, fails: \<^verbatim>\<open>start_for_today\<close> cancels nothing. After a second
  activation of the same director the handles 0 and 1 of the first activation are still
  in the handle list and still live in the host, next to the new handles 2 and 3; two
  zone loads without an unload between them run exactly this sequence.
\<close>

theorem start_for_today_twice_counterexample:
  "start_for_today ex_env ex_rng (ex_host0, new_director ex_cfg) = Inr (ex_host1, ex_director1)
   \<and> start_for_today ex_env ex_rng (ex_host1, ex_director1) = Inr (ex_host2, ex_director2)
   \<and> alarms ex_director1 = [0, 1]
   \<and> alarms ex_director2 = [0, 1, 2, 3]
   \<and> map fst (live ex_host2) = [0, 1, 2, 3]
   \<and> cancelled ex_host2 = []
   \<and> on_zone_late_load ex_files_cfg ex_env ex_rng ex_process0 = (None, ex_process1)
   \<and> on_zone_late_load ex_files_cfg ex_env ex_rng ex_process1 = (None, ex_process2)"
  by code_simp

text \<open>
  Claim C1, amended. \<^verbatim>\<open>start_for_today\<close> on a director that already holds handles
  does not replace the earlier activation: it appends the new handles to the handle
  list, cancels nothing and leaves every earlier alarm live. Only with a \<^verbatim>\<open>stop_all\<close>
  between the two activations is no handle of the earlier activation (all of them
  issued by the host) left in the handle list or live in the host.
\<close>

theorem reactivation_handles:
  assumes known: "set (alarms d1) \<subseteq> {..<next_handle h1}"
    and again: "start_for_today e g (h1, d1) = Inr (h2, d2)"
    and fresh: "start_for_today e' g' (stop_all (h1, d1)) = Inr (h3, d3)"
  shows "alarms d2 = alarms d1 @ [next_handle h1..<next_handle h2]
       \<and> cancelled h2 = cancelled h1
       \<and> take (length (live h1)) (live h2) = live h1
       \<and> alarms d3 = [next_handle h1..<next_handle h3]
       \<and> cancelled h3 = cancelled h1 @ alarms d1
       \<and> set (alarms d3) \<inter> set (alarms d1) = {}
       \<and> fst ` set (live h3) \<inter> set (alarms d1) = {}"
proof -
  from start_for_today_Inr [OF again] obtain s as where
    h2: "h2 = register h1 as"
    and d2: "d2 = d1\<lparr>schedules := s, alarms := alarms d1 @ [next_handle h1..<next_handle h2]\<rparr>"
    by blast
  let ?h = "h1\<lparr>live := filter (\<lambda>entry. fst entry \<notin> set (alarms d1)) (live h1),
        cancelled := cancelled h1 @ alarms d1\<rparr>"
  let ?d = "d1\<lparr>alarms := [], schedules := []\<rparr>"
  have stop: "stop_all (h1, d1) = (?h, ?d)" by (rule stop_all_eq)
  from start_for_today_Inr [OF fresh [unfolded stop]] obtain s' as' where
    h3: "h3 = register ?h as'"
    and d3: "d3 = ?d\<lparr>schedules := s', alarms := alarms ?d @ [next_handle ?h..<next_handle h3]\<rparr>"
    by blast
  have a3: "alarms d3 = [next_handle h1..<next_handle h3]" by (simp add: d3)
  have disj: "set (alarms d3) \<inter> set (alarms d1) = {}"
    using known by (auto simp: a3)
  have "fst ` set (live h3) \<subseteq> fst ` set (live ?h) \<union> {next_handle ?h..<next_handle h3}"
    unfolding h3 by (rule register_handles)
  then have live3: "fst ` set (live h3) \<inter> set (alarms d1) = {}"
    using known by fastforce
  show ?thesis
    using a3 disj live3 by (simp add: h2 d2 h3 register_def)
qed

theorem reactivation_handles_witness:
  "set (alarms ex_director1) \<subseteq> {..<next_handle ex_host1}
   \<and> start_for_today ex_env ex_rng (ex_host1, ex_director1) = Inr (ex_host2, ex_director2)
   \<and> start_for_today ex_env ex_rng (stop_all (ex_host1, ex_director1)) = Inr (ex_host3, ex_director3)
   \<and> alarms ex_director2 = alarms ex_director1 @ [2, 3]
   \<and> alarms ex_director3 = [2, 3]
   \<and> set (alarms ex_director3) \<inter> set (alarms ex_director1) = {}
   \<and> fst ` set (live ex_host3) \<inter> set (alarms ex_director1) = {}"
proof -
  have known: "set (alarms ex_director1) \<subseteq> {..<next_handle ex_host1}"
    by (simp add: ex_director1_def ex_host1_def)
  have again: "start_for_today ex_env ex_rng (ex_host1, ex_director1) = Inr (ex_host2, ex_director2)"
    by code_simp
  have fresh: "start_for_today ex_env ex_rng (stop_all (ex_host1, ex_director1))
      = Inr (ex_host3, ex_director3)"
    by code_simp
  note r = reactivation_handles [OF known again fresh]
  have a2: "alarms ex_director2 = alarms ex_director1 @ [2, 3]"
    using r by (simp add: ex_host1_def ex_host2_def upt_rec)
  have a3: "alarms ex_director3 = [2, 3]"
    using r by (simp add: ex_host1_def ex_host3_def upt_rec)
  show ?thesis
    using r a2 a3 known again fresh by blast
qed

end
